theory Spec2Isabelle
  imports Main "HOL-Library.Word"
begin

section \<open>Data model of page.go\<close>

text \<open>
  Go strings are byte sequences; \<open>string\<close> is a list of 8-bit characters.
  \<open>uint32\<close> and \<open>uint64\<close> are words whose arithmetic wraps around.
\<close>

type_synonym uint32 = "32 word"
type_synonym uint64 = "64 word"

text \<open>\<open>type OrderType string\<close> with its two constants.\<close>

type_synonym OrderType = string

definition Desc :: OrderType where
  "Desc = ''DESC''"

definition Asc :: OrderType where
  "Asc = ''ASC''"

text \<open>\<open>DefaultPageSize\<close> and \<open>MaxPageSize\<close> are untyped constants; they are used at
  \<open>uint32\<close> in \<open>NewPage\<close> and \<open>NewPaginator\<close> and at \<open>uint64\<close> in \<open>Limit\<close>.\<close>

definition DefaultPageSize :: "'a::len word" where
  "DefaultPageSize = 10"

definition MaxPageSize :: "'a::len word" where
  "MaxPageSize = 50"

record Sort =
  Column :: string
  Order :: OrderType

text \<open>The zero value \<open>Sort{}\<close>.\<close>

definition Sort_zero :: Sort where
  "Sort_zero = \<lparr>Column = [], Order = []\<rparr>"

text \<open>
  The struct \<open>Page\<close>. Its fields \<open>Column\<close> and \<open>Order\<close> share their names with the
  fields of \<open>Sort\<close>, so they are called \<open>PageColumn\<close> and \<open>PageOrder\<close> here. A
  \<open>*Page\<close> is a \<open>Page option\<close>, with \<open>None\<close> the nil pointer.
\<close>

record Page =
  Size :: uint32
  Page :: uint32
  More :: bool
  PageColumn :: string
  PageOrder :: "Sort list"

text \<open>The run-time panics the functions of the file can raise.\<close>

datatype panic = NilDereference | DivideByZero | SliceBounds

section \<open>Sort\<close>

text \<open>\<open>func (s Sort) String() string\<close>; \<open>fmt.Sprintf("%s %s", ...)\<close> joins the two
  strings with one space.\<close>

definition Sort_String :: "Sort \<Rightarrow> string" where
  "Sort_String s =
     (if Column s = [] then []
      else let s' = (if Order s = [] then s\<lparr>Order := Asc\<rparr> else s)
           in Column s' @ '' '' @ Order s')"

text \<open>
  \<open>_MatcherOrderBy = regexp.MustCompile(`-?([a-zA-Z0-9]+)`)\<close>. The pattern has no
  anchors, and \<open>MatchString\<close> reports whether the string contains any match of it: the
  pattern is tried at every start position. A byte of a multi-byte UTF-8 sequence is
  never in one of the three ASCII ranges, so matching byte by byte agrees with matching
  rune by rune.
\<close>

definition in_range :: "char \<Rightarrow> char \<Rightarrow> char \<Rightarrow> bool" where
  "in_range lo hi c = ((of_char lo :: nat) \<le> of_char c \<and> (of_char c :: nat) \<le> of_char hi)"

text \<open>The character class \<open>[a-zA-Z0-9]\<close>.\<close>

definition alnum :: "char \<Rightarrow> bool" where
  "alnum c = (in_range CHR ''a'' CHR ''z'' c \<or> in_range CHR ''A'' CHR ''Z'' c
              \<or> in_range CHR ''0'' CHR ''9'' c)"

text \<open>\<open>[a-zA-Z0-9]+\<close> at the start of the input: one character of the class is enough
  for a match to exist.\<close>

fun match_alnum_plus :: "string \<Rightarrow> bool" where
  "match_alnum_plus [] = False"
| "match_alnum_plus (c # cs) = alnum c"

text \<open>\<open>-?([a-zA-Z0-9]+)\<close> at the start of the input: with the optional dash taken, or
  without it.\<close>

fun match_here :: "string \<Rightarrow> bool" where
  "match_here [] = False"
| "match_here (c # cs) =
     ((c = CHR ''-'' \<and> match_alnum_plus cs) \<or> match_alnum_plus (c # cs))"

text \<open>\<open>_MatcherOrderBy.MatchString(s)\<close>: the search over the start positions.\<close>

fun MatchString :: "string \<Rightarrow> bool" where
  "MatchString [] = match_here []"
| "MatchString (c # cs) = (match_here (c # cs) \<or> MatchString cs)"

text \<open>\<open>strings.HasPrefix(s, "-")\<close>.\<close>

fun HasPrefix_dash :: "string \<Rightarrow> bool" where
  "HasPrefix_dash [] = False"
| "HasPrefix_dash (c # cs) = (c = CHR ''-'')"

text \<open>\<open>func NewSort(s string) (Sort, bool)\<close>. \<open>s[1:]\<close> is only evaluated for a
  non-empty \<open>s\<close>, where it is \<open>tl s\<close>.\<close>

definition NewSort :: "string \<Rightarrow> Sort \<times> bool" where
  "NewSort s =
     (if s = [] \<or> \<not> MatchString s then (Sort_zero, False)
      else let sort' = \<lparr>Column = s, Order = Asc\<rparr>;
               sort' = (if HasPrefix_dash s then sort'\<lparr>Column := tl s, Order := Desc\<rparr> else sort')
           in (sort', True))"

section \<open>Page\<close>

text \<open>\<open>func NewPage(size, page uint32, sort ...Sort) *Page\<close>. The result is the address
  of a fresh struct, never nil. The fields \<open>More\<close> and \<open>Column\<close> are not set and keep
  their zero values.\<close>

definition NewPage :: "uint32 \<Rightarrow> uint32 \<Rightarrow> Sort list \<Rightarrow> Page option" where
  "NewPage size' page sort' =
     (let size' = (if size' = 0 then DefaultPageSize else size');
          page = (if page = 0 then 1 else page)
      in Some \<lparr>Size = size', Page = page, More = False, PageColumn = [], PageOrder = sort'\<rparr>)"

text \<open>\<open>strings.Split(s, sep)\<close> for a separator of one byte, as in the only call of the
  file: \<open>cur\<close> is the part being read. The empty string splits into one empty part.\<close>

fun split_from :: "char \<Rightarrow> string \<Rightarrow> string \<Rightarrow> string list" where
  "split_from sep cur [] = [cur]"
| "split_from sep cur (c # cs) =
     (if c = sep then cur # split_from sep [] cs else split_from sep (cur @ [c]) cs)"

definition Split :: "string \<Rightarrow> char \<Rightarrow> string list" where
  "Split s sep = split_from sep [] s"

text \<open>The loop shared by both branches of \<open>GetOrder\<close>:
  \<open>for _, s := range specs { if s, ok := NewSort(s); ok { sort = append(sort, s) } }\<close>.\<close>

fun append_parsed :: "string list \<Rightarrow> Sort list \<Rightarrow> Sort list" where
  "append_parsed [] sort' = sort'"
| "append_parsed (s # specs) sort' =
     (case NewSort s of
        (s', True) \<Rightarrow> append_parsed specs (sort' @ [s'])
      | (s', False) \<Rightarrow> append_parsed specs sort')"

text \<open>\<open>func (p *Page) GetOrder(defaultSort ...string) []Sort\<close>. The fields of \<open>p\<close> are
  only read behind the test \<open>p != nil\<close>.\<close>

definition Page_GetOrder :: "Page option \<Rightarrow> string list \<Rightarrow> Sort list" where
  "Page_GetOrder p defaultSort =
     (if p \<noteq> None \<and> length (PageOrder (the p)) \<noteq> 0 then PageOrder (the p)
      else if p = None \<or> PageColumn (the p) = [] then append_parsed defaultSort []
      else append_parsed (Split (PageColumn (the p)) CHR '','') [])"

text \<open>\<open>func (p *Page) Limit() uint64\<close>.\<close>

definition Page_Limit :: "Page option \<Rightarrow> uint64" where
  "Page_Limit p =
     (let n = (DefaultPageSize :: uint64);
          n = (if p \<noteq> None \<and> Size (the p) \<noteq> 0 then ucast (Size (the p)) else n);
          n = (if n > MaxPageSize then MaxPageSize else n)
      in n)"

text \<open>\<open>func (p *Page) Offset() uint64\<close>. The product is a product of \<open>uint64\<close>.\<close>

definition Page_Offset :: "Page option \<Rightarrow> uint64" where
  "Page_Offset p =
     (let n = (1 :: uint64);
          n = (if p \<noteq> None \<and> Page (the p) \<noteq> 0 then ucast (Page (the p)) else n);
          n = (if n < 1 then 1 else n)
      in (n - 1) * Page_Limit p)"

section \<open>Paginator\<close>

text \<open>\<open>columnFunc\<close> is a function value that may be nil.\<close>

record PaginatorOption =
  defaultSize :: uint32
  maxSize :: uint32
  defaultSort :: "string list"
  columnFunc :: "(string \<Rightarrow> string) option"

definition WithDefaultSize :: "uint32 \<Rightarrow> PaginatorOption \<Rightarrow> PaginatorOption" where
  "WithDefaultSize size' o' = o'\<lparr>defaultSize := size'\<rparr>"

definition WithMaxSize :: "uint32 \<Rightarrow> PaginatorOption \<Rightarrow> PaginatorOption" where
  "WithMaxSize size' o' = o'\<lparr>maxSize := size'\<rparr>"

definition WithSort :: "string list \<Rightarrow> PaginatorOption \<Rightarrow> PaginatorOption" where
  "WithSort sort' o' = o'\<lparr>defaultSort := sort'\<rparr>"

definition WithColumnFunc :: "(string \<Rightarrow> string) option \<Rightarrow> PaginatorOption \<Rightarrow> PaginatorOption" where
  "WithColumnFunc f o' = o'\<lparr>columnFunc := f\<rparr>"

text \<open>\<open>func NewPaginator[T any](options ...func(*PaginatorOption)) Paginator[T]\<close>: the
  options are applied from left to right to the default configuration. A
  \<open>Paginator[T]\<close> holds nothing but its \<open>PaginatorOption\<close>.\<close>

definition NewPaginator :: "(PaginatorOption \<Rightarrow> PaginatorOption) list \<Rightarrow> PaginatorOption" where
  "NewPaginator options =
     fold (\<lambda>fn o'. fn o') options
       \<lparr>defaultSize = DefaultPageSize, maxSize = MaxPageSize, defaultSort = [],
        columnFunc = None\<rparr>"

text \<open>The loop of \<open>getOrder\<close>:
  \<open>for i, s := range sort { if p.columnFunc != nil { s.Column = p.columnFunc(s.Column) }; list[i] = s.String() }\<close>.
  \<open>i\<close> is the index of the head of the remaining sorts; \<open>list'\<close> has an entry for every
  index the loop writes.\<close>

fun getOrder_loop ::
  "(string \<Rightarrow> string) option \<Rightarrow> Sort list \<Rightarrow> nat \<Rightarrow> string list \<Rightarrow> string list" where
  "getOrder_loop cf [] i list' = list'"
| "getOrder_loop cf (s # sort') i list' =
     (let s = (case cf of None \<Rightarrow> s | Some f \<Rightarrow> s\<lparr>Column := f (Column s)\<rparr>)
      in getOrder_loop cf sort' (i + 1) (list'[i := Sort_String s]))"

text \<open>\<open>func (p Paginator[T]) getOrder(page *Page) []string\<close>;
  \<open>make([]string, len(sort))\<close> is a list of empty strings.\<close>

definition Paginator_getOrder :: "PaginatorOption \<Rightarrow> Page option \<Rightarrow> string list" where
  "Paginator_getOrder p page =
     (let sort' = Page_GetOrder page (defaultSort p);
          list' = replicate (length sort') []
      in getOrder_loop (columnFunc p) sort' 0 list')"

text \<open>
  \<open>sq.SelectBuilder\<close> belongs to the library squirrel, not to this package. Its methods
  stay uninterpreted: a query is a base query of any type and the builder calls made
  on it, innermost first.
\<close>

datatype 'q SelectBuilder =
    Query 'q
  | SB_Limit uint64 "'q SelectBuilder"
  | SB_Offset uint64 "'q SelectBuilder"
  | SB_OrderBy "string list" "'q SelectBuilder"

text \<open>A slice made by \<open>make([]T, len, cap)\<close>: its elements and its capacity.\<close>

record 'a slice =
  elems :: "'a list"
  cap :: nat

text \<open>
  \<open>func (p Paginator[T]) PrepareQuery(q sq.SelectBuilder, page *Page) ([]T, sq.SelectBuilder)\<close>.
  The page is changed through the pointer, so the page after the call is returned as
  a third component.
\<close>

definition Paginator_PrepareQuery ::
  "PaginatorOption \<Rightarrow> 'q SelectBuilder \<Rightarrow> Page option
     \<Rightarrow> 'a slice \<times> 'q SelectBuilder \<times> Page option" where
  "Paginator_PrepareQuery p q page =
     (let page =
            (case page of
               None \<Rightarrow> None
             | Some pg \<Rightarrow>
                 let pg = (if Size pg = 0 then pg\<lparr>Size := defaultSize p\<rparr> else pg);
                     pg = (if Size pg > maxSize p then pg\<lparr>Size := maxSize p\<rparr> else pg)
                 in Some pg);
          limit = Page_Limit page;
          q = SB_OrderBy (Paginator_getOrder p page)
                (SB_Offset (Page_Offset page) (SB_Limit (Page_Limit page + 1) q))
      in (\<lparr>elems = [], cap = unat (limit + 1)\<rparr>, q, page))"

text \<open>
  \<open>func (p Paginator[T]) PrepareResult(result []T, page *Page) []T\<close>, on the elements
  of \<open>result\<close>. \<open>int(page.Limit())\<close> reads the \<open>uint64\<close> as a signed integer, and
  \<open>uint32(...)\<close> keeps the low 32 bits. \<open>page.Limit()\<close> accepts a nil page; the
  assignment to \<open>page.More\<close> that follows panics on it. \<open>result[:limit]\<close> panics unless
  \<open>0 <= limit <= cap(result)\<close>; it is only evaluated when \<open>limit < len(result)\<close>, and
  the capacity of a slice is at least its length. The division of two \<open>uint32\<close> panics
  when the divisor is zero. The page after the call is returned with the rows.
\<close>

definition Paginator_PrepareResult ::
  "PaginatorOption \<Rightarrow> 'a list \<Rightarrow> Page option \<Rightarrow> panic + ('a list \<times> Page)" where
  "Paginator_PrepareResult p result page =
     (let limit = sint (Page_Limit page)
      in case page of
           None \<Rightarrow> Inl NilDereference
         | Some pg \<Rightarrow>
             let pg = pg\<lparr>More := int (length result) > limit\<rparr>
             in if More pg \<and> limit < 0 then Inl SliceBounds
                else
                  let result = (if More pg then take (nat limit) result else result);
                      pg = pg\<lparr>Size := word_of_int limit\<rparr>
                  in if (word_of_int limit :: uint32) = 0 then Inl DivideByZero
                     else Inr (result,
                            pg\<lparr>Page := 1 + ucast (Page_Offset (Some pg)) div word_of_int limit\<rparr>))"

text \<open>\<open>strings.ToLower\<close> on ASCII strings, the column function of the package's test:
  the letters \<open>A\<close> to \<open>Z\<close> become \<open>a\<close> to \<open>z\<close>, and the other ASCII bytes stay.\<close>

definition ToLower_ascii :: "string \<Rightarrow> string" where
  "ToLower_ascii s =
     map (\<lambda>c. if in_range CHR ''A'' CHR ''Z'' c then char_of (of_char c + (32 :: nat)) else c) s"

subsection \<open>The pattern as a language\<close>

text \<open>
  What the pattern \<open>[-]?[A-Za-z0-9]+\<close> denotes, independently of the search above: the
  strings that are a non-empty run of letters and digits, with or without a dash in
  front; and the strings that have such a string as a substring.
\<close>

definition pattern_lang :: "string \<Rightarrow> bool" where
  "pattern_lang m =
     (\<exists>run. run \<noteq> [] \<and> list_all alnum run \<and> (m = run \<or> m = CHR ''-'' # run))"

definition contains_match :: "string \<Rightarrow> bool" where
  "contains_match s = (\<exists>pre m post. s = pre @ m @ post \<and> pattern_lang m)"

subsection \<open>Parsing a list of specs\<close>

text \<open>
  What it means to parse every spec of a list with \<open>NewSort\<close> and to keep the successful
  parses in the order of the input, stated without the loop of \<open>GetOrder\<close>.
\<close>

definition keep_parsed :: "string list \<Rightarrow> Sort list" where
  "keep_parsed specs = map fst (filter snd (map NewSort specs))"

text \<open>The inverse of splitting: the parts with the separator between neighbours.\<close>

fun join :: "char \<Rightarrow> string list \<Rightarrow> string" where
  "join sep [] = []"
| "join sep [p] = p"
| "join sep (p # q # ps) = p @ sep # join sep (q # ps)"

section \<open>Properties of Sort\<close>

lemma MatchString_iff_alnum: "MatchString s \<longleftrightarrow> (\<exists>c \<in> set s. alnum c)"
proof (induction s)
  case Nil
  show ?case by simp
next
  case (Cons a s)
  show ?case
  proof (cases s)
    case Nil
    then show ?thesis by auto
  next
    case (Cons b t)
    with Cons.IH show ?thesis by auto
  qed
qed

lemma contains_match_iff_alnum: "contains_match s \<longleftrightarrow> (\<exists>c \<in> set s. alnum c)"
proof
  assume "contains_match s"
  then obtain pre m post run where s: "s = pre @ m @ post"
    and run: "run \<noteq> []" "list_all alnum run" and m: "m = run \<or> m = CHR ''-'' # run"
    unfolding contains_match_def pattern_lang_def by blast
  from run obtain c where c: "c \<in> set run" "alnum c"
    by (cases run) (auto simp: list_all_iff)
  from m c(1) have "c \<in> set m" by auto
  with s c(2) show "\<exists>c \<in> set s. alnum c" by auto
next
  assume "\<exists>c \<in> set s. alnum c"
  then obtain c where c: "c \<in> set s" "alnum c" by blast
  from c(1) obtain pre post where "s = pre @ c # post"
    by (auto simp: in_set_conv_decomp)
  then have "s = pre @ [c] @ post" by simp
  moreover have "pattern_lang [c]"
    unfolding pattern_lang_def using c(2) by (intro exI [of _ "[c]"]) simp
  ultimately show "contains_match s"
    unfolding contains_match_def by blast
qed

lemma MatchString_iff_contains: "MatchString s \<longleftrightarrow> contains_match s"
  by (simp add: MatchString_iff_alnum contains_match_iff_alnum)

text \<open>
  C6. \<open>NewSort\<close> fails exactly when the string is empty or has no substring in the
  language of \<open>[-]?[A-Za-z0-9]+\<close>. When it succeeds, a string that starts with a dash
  gives the rest of the string as the column, descending, and any other string gives
  the whole string, ascending. \<open>NewSort("-id")\<close> is \<open>{id, DESC}\<close> and \<open>NewSort("id")\<close> is
  \<open>{id, ASC}\<close>.
\<close>

theorem NewSort_spec:
  "(snd (NewSort s) = False \<longleftrightarrow> (s = [] \<or> \<not> contains_match s))
   \<and> NewSort s =
       (if s = [] \<or> \<not> contains_match s then (\<lparr>Column = [], Order = []\<rparr>, False)
        else if take 1 s = ''-'' then (\<lparr>Column = drop 1 s, Order = ''DESC''\<rparr>, True)
        else (\<lparr>Column = s, Order = ''ASC''\<rparr>, True))
   \<and> NewSort ''-id'' = (\<lparr>Column = ''id'', Order = ''DESC''\<rparr>, True)
   \<and> NewSort ''id'' = (\<lparr>Column = ''id'', Order = ''ASC''\<rparr>, True)"
proof -
  have eq: "NewSort s =
       (if s = [] \<or> \<not> contains_match s then (\<lparr>Column = [], Order = []\<rparr>, False)
        else if take 1 s = ''-'' then (\<lparr>Column = drop 1 s, Order = ''DESC''\<rparr>, True)
        else (\<lparr>Column = s, Order = ''ASC''\<rparr>, True))"
    by (cases s)
      (simp_all add: NewSort_def MatchString_iff_contains Sort_zero_def Asc_def Desc_def
        drop_Suc del: MatchString.simps)
  have fails: "snd (NewSort s) = False \<longleftrightarrow> (s = [] \<or> \<not> contains_match s)"
    by (simp add: eq)
  have dash: "NewSort ''-id'' = (\<lparr>Column = ''id'', Order = ''DESC''\<rparr>, True)"
    by (simp add: NewSort_def alnum_def in_range_def Asc_def Desc_def)
  have plain: "NewSort ''id'' = (\<lparr>Column = ''id'', Order = ''ASC''\<rparr>, True)"
    by (simp add: NewSort_def alnum_def in_range_def Asc_def Desc_def)
  from fails eq dash plain show ?thesis by blast
qed

theorem NewSort_spec_witness:
  "contains_match ''_a-b!'' \<and> NewSort ''_a-b!'' = (\<lparr>Column = ''_a-b!'', Order = ''ASC''\<rparr>, True)
   \<and> \<not> contains_match ''-_'' \<and> NewSort ''-_'' = (\<lparr>Column = [], Order = []\<rparr>, False)"
  using NewSort_spec [of "''_a-b!''"] NewSort_spec [of "''-_''"]
  by (simp add: NewSort_def alnum_def in_range_def Asc_def Desc_def Sort_zero_def)

section \<open>Properties of Limit and Offset\<close>

lemma unat_lt32: "unat (w :: uint32) < 4294967296"
  using unsigned_less [of w, where ?'a = nat] by simp

lemma unat_ucast_32_64: "unat (ucast (w :: uint32) :: uint64) = unat w"
proof -
  have "unat w < 2 ^ 64" using unat_lt32 [of w] by simp
  then show ?thesis
    by (simp add: unsigned_ucast_eq take_bit_nat_eq_self)
qed

lemma unat_Page_Limit:
  "unat (Page_Limit p) =
     (case p of None \<Rightarrow> 10 | Some pg \<Rightarrow> if Size pg = 0 then 10 else min 50 (unat (Size pg)))"
  unfolding Page_Limit_def DefaultPageSize_def MaxPageSize_def Let_def
  by (cases p) (auto simp: word_less_nat_alt unat_ucast_32_64 min_def)

lemma Page_Limit_bounds: "1 \<le> unat (Page_Limit p) \<and> unat (Page_Limit p) \<le> 50"
  by (cases p) (auto simp: unat_Page_Limit unat_gt_0 Suc_le_eq)

lemma sint_small: "unat (w :: uint64) \<le> 50 \<Longrightarrow> sint w = int (unat w)"
proof -
  assume a: "unat w \<le> 50"
  then have "w \<le> 50" by (simp add: word_le_nat_alt)
  then have "uint w \<le> 50" by (simp add: word_le_def)
  then have u: "uint w < 2 ^ 63" by simp
  have lo: "- (2 ^ 63) \<le> uint w"
    by (rule order_trans [of _ 0]) simp_all
  have "signed_take_bit 63 (uint w) = uint w"
    by (rule signed_take_bit_int_eq_self [OF lo u])
  then show ?thesis by (simp add: sint_uint)
qed

lemma sint_Page_Limit: "sint (Page_Limit p) = int (unat (Page_Limit p))"
  using Page_Limit_bounds [of p] by (simp add: sint_small)

lemma unat_Page_Offset:
  "unat (Page_Offset p) =
     (case p of None \<Rightarrow> 0 | Some pg \<Rightarrow> (max (unat (Page pg)) 1 - 1) * unat (Page_Limit p))"
proof (cases p)
  case None
  then show ?thesis by (simp add: Page_Offset_def)
next
  case (Some pg)
  define n :: uint64 where "n = (if Page pg \<noteq> 0 then ucast (Page pg) else 1)"
  have "Page pg \<noteq> 0 \<Longrightarrow> 0 < unat (Page pg)" by (simp add: unat_gt_0)
  then have n: "unat n = max (unat (Page pg)) 1"
    by (auto simp: n_def unat_ucast_32_64 max_def)
  then have n0: "n \<noteq> 0" by (auto simp: max_def unat_eq_zero split: if_splits)
  then have n1: "\<not> n < 1" by (simp add: word_less_nat_alt unat_gt_0)
  have "Page_Offset p = ((if n < 1 then 1 else n) - 1) * Page_Limit p"
    by (simp add: Page_Offset_def Some n_def Let_def)
  with n1 have off: "Page_Offset p = (n - 1) * Page_Limit p"
    by simp
  have m: "unat (n - 1) = max (unat (Page pg)) 1 - 1"
    using n n0 by (simp add: unat_minus_one)
  have "max (unat (Page pg)) 1 - 1 \<le> unat (Page pg)"
    by (simp add: max_def)
  then have "unat (n - 1) < 4294967296"
    unfolding m by (rule le_less_trans) (rule unat_lt32)
  moreover have "unat (Page_Limit p) \<le> 50" using Page_Limit_bounds by simp
  ultimately have "unat (n - 1) * unat (Page_Limit p) \<le> 4294967296 * 50"
    by (intro mult_mono) simp_all
  then have "unat (n - 1) * unat (Page_Limit p) < 2 ^ LENGTH(64)" by simp
  then have "unat ((n - 1) * Page_Limit p) = unat (n - 1) * unat (Page_Limit p)"
    by (simp only: unat_mult_lem)
  with off m Some show ?thesis by simp
qed

text \<open>
  C4. For every page, nil or not, \<open>Limit\<close> is between 1 and 50: it is 10 for a nil page
  or a \<open>Size\<close> of 0, and the smaller of \<open>Size\<close> and 50 otherwise. \<open>Offset\<close> is
  \<open>(max(Page, 1) - 1) * Limit\<close>, with a nil page counting as \<open>Page = 0\<close>; the product
  does not wrap around.
\<close>

theorem Limit_Offset_spec:
  "1 \<le> unat (Page_Limit p) \<and> unat (Page_Limit p) \<le> 50
   \<and> unat (Page_Limit None) = 10
   \<and> unat (Page_Limit (Some pg)) = min 50 (if Size pg = 0 then 10 else unat (Size pg))
   \<and> unat (Page_Offset None) = (max 0 1 - 1) * unat (Page_Limit None)
   \<and> unat (Page_Offset (Some pg)) = (max (unat (Page pg)) 1 - 1) * unat (Page_Limit (Some pg))"
proof -
  have "unat (Page_Limit (Some pg)) = min 50 (if Size pg = 0 then 10 else unat (Size pg))"
    by (simp add: unat_Page_Limit)
  moreover have "unat (Page_Limit None) = 10"
    by (simp add: unat_Page_Limit)
  moreover have "unat (Page_Offset None) = (max 0 1 - 1) * unat (Page_Limit None)"
    by (simp add: unat_Page_Offset)
  moreover have "unat (Page_Offset (Some pg)) = (max (unat (Page pg)) 1 - 1) * unat (Page_Limit (Some pg))"
    by (simp add: unat_Page_Offset)
  ultimately show ?thesis
    using Page_Limit_bounds [of p] by blast
qed

section \<open>Properties of PrepareResult\<close>

lemma uint_less_int: "uint (w :: 'a::len word) < int n \<longleftrightarrow> unat w < n"
  by (simp only: uint_nat of_nat_less_iff)

lemma unat_limit32: "unat (ucast (Page_Limit p) :: uint32) = unat (Page_Limit p)"
proof -
  have "unat (Page_Limit p) < 2 ^ 32" using Page_Limit_bounds [of p] by simp
  then show ?thesis by (simp add: unsigned_ucast_eq take_bit_nat_eq_self)
qed

lemma limit32_neq0: "(ucast (Page_Limit p) :: uint32) \<noteq> 0"
proof
  assume "(ucast (Page_Limit p) :: uint32) = 0"
  then have "unat (ucast (Page_Limit p) :: uint32) = 0" by simp
  then have "unat (Page_Limit p) = 0" by (simp only: unat_limit32)
  then show False using Page_Limit_bounds [of p] by simp
qed

lemma PrepareResult_Some:
  "Paginator_PrepareResult P rows (Some pg) =
     (let L = unat (Page_Limit (Some pg));
          pg' = pg\<lparr>More := L < length rows, Size := ucast (Page_Limit (Some pg))\<rparr>
      in Inr (if L < length rows then take L rows else rows,
              pg'\<lparr>Page := 1 + ucast (Page_Offset (Some pg')) div ucast (Page_Limit (Some pg))\<rparr>))"
  using limit32_neq0 [of "Some pg"]
  by (simp add: Paginator_PrepareResult_def Let_def sint_Page_Limit uint_less_int)




text \<open>\<open>PrepareQuery\<close> accepts a nil page behind its test \<open>page != nil\<close> and leaves it
  nil, so a nil page can reach \<open>PrepareResult\<close>.\<close>

lemma PrepareQuery_nil: "snd (snd (Paginator_PrepareQuery P q None)) = None"
  by (simp add: Paginator_PrepareQuery_def)


lemma PrepareQuery_page:
  "snd (snd (Paginator_PrepareQuery P q (Some pg))) =
     Some (pg\<lparr>Size := (let s = (if Size pg = 0 then defaultSize P else Size pg)
                        in if s > maxSize P then maxSize P else s)\<rparr>)"
  by (simp add: Paginator_PrepareQuery_def Let_def)

text \<open>
  C5. \<open>Limit\<close> is never zero, and neither is the \<open>uint32\<close> divisor that \<open>PrepareResult\<close>
  makes of it, so \<open>PrepareResult\<close> never panics with a division by zero, for any
  paginator, rows and page. A paginator with \<open>maxSize = 0\<close> leaves every page with
  \<open>Size = 0\<close>, and one with \<open>defaultSize = 0\<close> leaves a page of \<open>Size = 0\<close> at 0; in both
  cases \<open>Limit\<close> is then the global default of 10.
\<close>

theorem no_division_by_zero:
  "Page_Limit p \<noteq> 0
   \<and> (word_of_int (sint (Page_Limit p)) :: uint32) \<noteq> 0
   \<and> Paginator_PrepareResult P rows p \<noteq> Inl DivideByZero
   \<and> Page_Limit (snd (snd (Paginator_PrepareQuery (P\<lparr>maxSize := 0\<rparr>) q (Some pg))))
       = DefaultPageSize
   \<and> Page_Limit (snd (snd (Paginator_PrepareQuery (P\<lparr>defaultSize := 0\<rparr>) q
         (Some (pg\<lparr>Size := 0\<rparr>))))) = DefaultPageSize"
proof -
  have a: "Page_Limit p \<noteq> 0"
    using Page_Limit_bounds [of p] by (auto simp: unat_eq_zero [symmetric])
  have b: "(word_of_int (sint (Page_Limit p)) :: uint32) \<noteq> 0"
    using limit32_neq0 [of p] by (simp add: sint_Page_Limit)
  have c: "Paginator_PrepareResult P rows p \<noteq> Inl DivideByZero"
  proof (cases p)
    case None
    then show ?thesis by (simp add: Paginator_PrepareResult_def)
  next
    case (Some pg)
    then show ?thesis by (simp add: PrepareResult_Some Let_def)
  qed
  have d: "Page_Limit (snd (snd (Paginator_PrepareQuery (P\<lparr>maxSize := 0\<rparr>) q (Some pg))))
       = DefaultPageSize"
    by (simp add: PrepareQuery_page Let_def Page_Limit_def DefaultPageSize_def MaxPageSize_def
        word_gt_0)
  have e: "Page_Limit (snd (snd (Paginator_PrepareQuery (P\<lparr>defaultSize := 0\<rparr>) q
         (Some (pg\<lparr>Size := 0\<rparr>))))) = DefaultPageSize"
    by (simp add: PrepareQuery_page Let_def Page_Limit_def DefaultPageSize_def MaxPageSize_def)
  from a b c d e show ?thesis by blast
qed

text \<open>
  While the offset \<open>(max(Page, 1) - 1) * Limit()\<close> fits into 32 bits, the page number
  that \<open>PrepareResult\<close> recomputes is the one at entry, with 0 replaced by 1.
\<close>

lemma PrepareResult_page_in_range:
  assumes "(max (unat (Page pg)) 1 - 1) * unat (Page_Limit (Some pg)) < 2 ^ 32"
  shows "Paginator_PrepareResult P rows (Some pg) =
     (let L = unat (Page_Limit (Some pg))
      in Inr (if L < length rows then take L rows else rows,
              pg\<lparr>More := L < length rows, Size := ucast (Page_Limit (Some pg)),
                 Page := (if Page pg = 0 then 1 else Page pg)\<rparr>))"
proof -
  let ?L = "Page_Limit (Some pg)"
  define pg' where "pg' = pg\<lparr>More := unat ?L < length rows, Size := ucast ?L\<rparr>"
  have sz: "unat (Size pg') = unat ?L" by (simp add: pg'_def unat_limit32)
  have L': "unat (Page_Limit (Some pg')) = unat ?L"
    using Page_Limit_bounds [of "Some pg"] by (auto simp: unat_Page_Limit [of "Some pg'"] sz unat_eq_zero [symmetric])
  have off: "unat (Page_Offset (Some pg')) = (max (unat (Page pg)) 1 - 1) * unat ?L"
    by (simp add: unat_Page_Offset L') (simp add: pg'_def)
  let ?m = "max (unat (Page pg)) 1"
  have offlt: "unat (Page_Offset (Some pg')) < 2 ^ 32" using assms by (simp only: off)
  have "unat (ucast (Page_Offset (Some pg')) :: uint32) = unat (Page_Offset (Some pg'))"
    using offlt by (simp add: unsigned_ucast_eq take_bit_nat_eq_self)
  then have q: "unat ((ucast (Page_Offset (Some pg')) :: uint32) div ucast ?L) = ?m - 1"
    using Page_Limit_bounds [of "Some pg"] by (simp add: unat_div unat_limit32 off)
  have m1: "1 + (?m - 1) = ?m" by (simp add: max_def)
  have "?m < 4294967296"
    using unat_lt32 [of "Page pg"] by (simp add: max_def)
  then have "unat (1 :: uint32) + (?m - 1) < 2 ^ LENGTH(32)"
    using m1 by simp
  then have "unat (1 + (ucast (Page_Offset (Some pg')) :: uint32) div ucast ?L) = 1 + (?m - 1)"
    using q by (simp add: unat_add_lem [THEN iffD1])
  also have "\<dots> = unat (if Page pg = 0 then 1 else Page pg)"
    by (auto simp: max_def unat_eq_zero [symmetric])
  finally have "1 + (ucast (Page_Offset (Some pg')) :: uint32) div ucast ?L
      = (if Page pg = 0 then 1 else Page pg)"
    by (rule word_unat_eq_iff [THEN iffD2])
  then show ?thesis
    by (simp add: PrepareResult_Some Let_def pg'_def)
qed

text \<open>
  C9. \<open>PrepareResult\<close> does not preserve every page number: it narrows the offset to
  \<open>uint32\<close> before it divides. For \<open>Size = 50\<close> and \<open>Page = 85899347\<close> the offset is
  \<open>85899346 * 50 = 4294967300\<close>, which is 4 modulo \<open>2^32\<close>, and the page number after the
  call is \<open>1 + 4 / 50 = 1\<close>.
\<close>

theorem PrepareResult_page_wraps:
  "Paginator_PrepareResult P rows
     (Some \<lparr>Size = 50, Page = 85899347, More = False, PageColumn = [], PageOrder = []\<rparr>)
   = Inr (if 50 < length rows then take 50 rows else rows,
          \<lparr>Size = 50, Page = 1, More = 50 < length rows, PageColumn = [], PageOrder = []\<rparr>)"
  by (simp add: Paginator_PrepareResult_def Let_def Page_Offset_def Page_Limit_def
      DefaultPageSize_def MaxPageSize_def)

section \<open>Properties of GetOrder\<close>

lemma append_parsed_eq: "append_parsed specs acc = acc @ keep_parsed specs"
  by (induction specs arbitrary: acc) (auto simp: keep_parsed_def split: prod.splits bool.splits)

lemma split_from_ne: "split_from sep cur s \<noteq> []"
  by (induction s arbitrary: cur) auto

lemma join_split_from: "join sep (split_from sep cur s) = cur @ s"
proof (induction s arbitrary: cur)
  case Nil
  show ?case by simp
next
  case (Cons c s)
  show ?case
  proof (cases "c = sep")
    case True
    obtain p ps where ps: "split_from sep [] s = p # ps"
      using split_from_ne [of sep "[]" s] by (cases "split_from sep [] s") auto
    have "join sep (cur # split_from sep [] s) = cur @ sep # join sep (split_from sep [] s)"
      by (simp add: ps)
    with True Cons.IH [of "[]"] show ?thesis by simp
  next
    case False
    with Cons.IH [of "cur @ [c]"] show ?thesis by simp
  qed
qed

lemma split_from_no_sep:
  "sep \<notin> set cur \<Longrightarrow> list_all (\<lambda>p. sep \<notin> set p) (split_from sep cur s)"
  by (induction s arbitrary: cur) auto

lemma length_split_from: "length (split_from sep cur s) = Suc (count_list s sep)"
  by (induction s arbitrary: cur) auto

text \<open>
  C7. The order of a page is resolved by precedence. A page with a non-empty \<open>Order\<close>
  list gives that list as it is. Otherwise a nil page or an empty \<open>Column\<close> gives the
  default specs, parsed by \<open>NewSort\<close>, successes only, in input order. Otherwise the
  \<open>Column\<close> is split at every comma and the parts are parsed the same way. The split
  is the one whose parts joined by commas give the string back and hold no comma.
\<close>

theorem GetOrder_spec:
  "Page_GetOrder None defaults = keep_parsed defaults
   \<and> Page_GetOrder (Some pg) defaults =
       (if PageOrder pg \<noteq> [] then PageOrder pg
        else if PageColumn pg = [] then keep_parsed defaults
        else keep_parsed (Split (PageColumn pg) CHR '',''))
   \<and> join CHR '','' (Split s CHR '','') = s
   \<and> list_all (\<lambda>p. CHR '','' \<notin> set p) (Split s CHR '','')
   \<and> length (Split s CHR '','') = Suc (count_list s CHR '','')"
  by (simp add: Page_GetOrder_def append_parsed_eq Split_def join_split_from split_from_no_sep
      length_split_from)


theorem GetOrder_spec_witness:
  "Page_GetOrder (Some \<lparr>Size = 0, Page = 0, More = False, PageColumn = ''a,,-b, c!,-'',
       PageOrder = []\<rparr>) [''x'']
   = [\<lparr>Column = ''a'', Order = ''ASC''\<rparr>, \<lparr>Column = ''b'', Order = ''DESC''\<rparr>,
      \<lparr>Column = '' c!'', Order = ''ASC''\<rparr>]
   \<and> Page_GetOrder None [''-x'', ''?'', ''y''] 
     = [\<lparr>Column = ''x'', Order = ''DESC''\<rparr>, \<lparr>Column = ''y'', Order = ''ASC''\<rparr>]"
  using GetOrder_spec [where pg = "\<lparr>Size = 0, Page = 0, More = False, PageColumn = ''a,,-b, c!,-'',
       PageOrder = []\<rparr>" and defaults = "[''x'']" and s = "[]"]
    GetOrder_spec [where defaults = "[''-x'', ''?'', ''y'']" and s = "[]"
      and pg = "\<lparr>Size = 0, Page = 0, More = False, PageColumn = [], PageOrder = []\<rparr>"]
  by (simp add: keep_parsed_def Split_def NewSort_def alnum_def in_range_def Asc_def Desc_def
      Sort_zero_def)

section \<open>Properties of the paginator's order strings\<close>

lemma getOrder_loop_eq:
  "i + length srt \<le> length lst \<Longrightarrow>
   getOrder_loop cf srt i lst =
     take i lst
     @ map (\<lambda>s. Sort_String (case cf of None \<Rightarrow> s | Some f \<Rightarrow> s\<lparr>Column := f (Column s)\<rparr>)) srt
     @ drop (i + length srt) lst"
proof (induction srt arbitrary: i lst)
  case Nil
  then show ?case by simp
next
  case (Cons s srt)
  let ?x = "Sort_String (case cf of None \<Rightarrow> s | Some f \<Rightarrow> s\<lparr>Column := f (Column s)\<rparr>)"
  from Cons.prems have i: "i < length lst" by simp
  have t: "take (Suc i) (lst[i := ?x]) = take i lst @ [?x]"
    using i by (simp add: take_Suc_conv_app_nth)
  have d: "drop (Suc i + length srt) (lst[i := ?x]) = drop (Suc i + length srt) lst"
    by simp
  have "getOrder_loop cf (s # srt) i lst = getOrder_loop cf srt (Suc i) (lst[i := ?x])"
    by (simp add: Let_def)
  also have "\<dots> = take (Suc i) (lst[i := ?x])
      @ map (\<lambda>s. Sort_String (case cf of None \<Rightarrow> s | Some f \<Rightarrow> s\<lparr>Column := f (Column s)\<rparr>)) srt
      @ drop (Suc i + length srt) (lst[i := ?x])"
    using Cons.prems by (intro Cons.IH) simp
  finally show ?case by (simp only: t d) simp
qed

text \<open>
  C8. \<open>getOrder\<close> returns one string for every sort that \<open>GetOrder\<close> resolves, in the
  same order: the sort rendered by \<open>String\<close> after \<open>columnFunc\<close>, when there is one, has
  been applied to its column. A sort with an empty column renders as the empty string,
  and a missing order is rendered as \<open>ASC\<close>. Empty strings keep their position in the
  result: the second of three sorts below has an empty column.
\<close>

theorem getOrder_spec:
  "Paginator_getOrder P page =
     map (\<lambda>s. Sort_String (case columnFunc P of None \<Rightarrow> s
                                               | Some f \<Rightarrow> s\<lparr>Column := f (Column s)\<rparr>))
       (Page_GetOrder page (defaultSort P))
   \<and> length (Paginator_getOrder P page) = length (Page_GetOrder page (defaultSort P))
   \<and> Sort_String \<lparr>Column = [], Order = ord\<rparr> = []
   \<and> Sort_String \<lparr>Column = c # col, Order = []\<rparr> = (c # col) @ '' ASC''
   \<and> Sort_String \<lparr>Column = c # col, Order = o' # ord\<rparr> = (c # col) @ '' '' @ (o' # ord)
   \<and> Paginator_getOrder (NewPaginator [])
        (Some \<lparr>Size = 0, Page = 0, More = False, PageColumn = [],
               PageOrder = [\<lparr>Column = ''a'', Order = ''DESC''\<rparr>, \<lparr>Column = [], Order = ''ASC''\<rparr>,
                            \<lparr>Column = ''b'', Order = []\<rparr>]\<rparr>)
      = [''a DESC'', [], ''b ASC'']"
proof -
  have m: "Paginator_getOrder P page =
     map (\<lambda>s. Sort_String (case columnFunc P of None \<Rightarrow> s
                                               | Some f \<Rightarrow> s\<lparr>Column := f (Column s)\<rparr>))
       (Page_GetOrder page (defaultSort P))" for P page
    by (simp add: Paginator_getOrder_def Let_def getOrder_loop_eq)
  have ex: "Paginator_getOrder (NewPaginator [])
        (Some \<lparr>Size = 0, Page = 0, More = False, PageColumn = [],
               PageOrder = [\<lparr>Column = ''a'', Order = ''DESC''\<rparr>, \<lparr>Column = [], Order = ''ASC''\<rparr>,
                            \<lparr>Column = ''b'', Order = []\<rparr>]\<rparr>)
      = [''a DESC'', [], ''b ASC'']"
    by (simp add: m NewPaginator_def Page_GetOrder_def Sort_String_def Asc_def)
  show ?thesis
    by (simp add: m [of P page] ex) (simp add: Sort_String_def Asc_def)
qed

section \<open>Properties of NewPage and PrepareQuery\<close>

lemma unat_limit_plus1: "unat (Page_Limit page + 1) = unat (Page_Limit page) + 1"
proof -
  have "unat (Page_Limit page) + unat (1 :: uint64) < 2 ^ LENGTH(64)"
    using Page_Limit_bounds [of page] by simp
  then show ?thesis by (simp add: unat_add_lem [THEN iffD1])
qed

text \<open>
  C2. For a page that is not nil, \<open>PrepareQuery\<close> first replaces a \<open>Size\<close> of 0 by the
  paginator's \<open>defaultSize\<close> and then a \<open>Size\<close> above \<open>maxSize\<close> by \<open>maxSize\<close>. With the
  page so changed, it calls \<open>Limit(page.Limit() + 1)\<close>, \<open>Offset(page.Offset())\<close> and
  \<open>OrderBy\<close> with the resolved order strings on the query, and returns the query with
  an empty slice of capacity \<open>page.Limit() + 1\<close>; the sum does not wrap around.
\<close>

theorem PrepareQuery_spec:
  "Paginator_PrepareQuery P q (Some pg) =
     (let size1 = (if Size pg = 0 then defaultSize P else Size pg);
          size2 = (if size1 > maxSize P then maxSize P else size1);
          page = Some (pg\<lparr>Size := size2\<rparr>)
      in (\<lparr>elems = [], cap = unat (Page_Limit page) + 1\<rparr>,
          SB_OrderBy (Paginator_getOrder P page)
            (SB_Offset (Page_Offset page) (SB_Limit (Page_Limit page + 1) q)),
          page))
   \<and> unat (Page_Limit page' + 1) = unat (Page_Limit page') + 1"
  by (simp add: Paginator_PrepareQuery_def Let_def unat_limit_plus1)

lemma ToLower_ascii_ID: "ToLower_ascii ''ID'' = ''id''"
  by code_simp

text \<open>
  C1. The scenario of the package's test: a paginator with \<open>defaultSize = 2\<close>,
  \<open>maxSize = 5\<close>, default sort \<open>ID\<close> and a lower-casing column function, called with
  \<open>NewPage(0, 0)\<close>. The page becomes \<open>{Page: 1, Size: 5}\<close>, the order string is
  \<open>id ASC\<close>, the limit is 6 and the offset is 0; the returned slice is empty.
\<close>

theorem PrepareQuery_scenario:
  "Paginator_PrepareQuery
     (NewPaginator [WithColumnFunc (Some ToLower_ascii), WithDefaultSize 2, WithMaxSize 5,
        WithSort [''ID'']])
     q (NewPage 0 0 [])
   = (\<lparr>elems = [], cap = 6\<rparr>,
      SB_OrderBy [''id ASC''] (SB_Offset 0 (SB_Limit 6 q)),
      Some \<lparr>Size = 5, Page = 1, More = False, PageColumn = [], PageOrder = []\<rparr>)"
  by (simp add: Paginator_PrepareQuery_def NewPaginator_def WithColumnFunc_def
      WithDefaultSize_def WithMaxSize_def WithSort_def NewPage_def DefaultPageSize_def
      MaxPageSize_def Let_def Page_Limit_def Page_Offset_def Paginator_getOrder_def
      Page_GetOrder_def NewSort_def alnum_def in_range_def Asc_def Desc_def Sort_String_def
      ToLower_ascii_ID)

text \<open>
  C10. \<open>NewPage\<close> never returns nil. A size of 0 becomes 10 and a page of 0 becomes 1,
  any other argument and the sorts are stored as they are, and \<open>More\<close> is false. So the
  \<open>Size\<close> of the new page is not 0, and \<open>PrepareQuery\<close> on it does not depend on the
  paginator's \<open>defaultSize\<close>.
\<close>

theorem NewPage_spec:
  "NewPage sz pn srt =
     Some \<lparr>Size = (if sz = 0 then 10 else sz), Page = (if pn = 0 then 1 else pn), More = False,
           PageColumn = [], PageOrder = srt\<rparr>
   \<and> NewPage sz pn srt \<noteq> None
   \<and> Size (the (NewPage sz pn srt)) \<noteq> 0
   \<and> Paginator_PrepareQuery (P\<lparr>defaultSize := d\<rparr>) q (NewPage sz pn srt)
       = Paginator_PrepareQuery P q (NewPage sz pn srt)"
  by (simp add: NewPage_def DefaultPageSize_def Let_def Paginator_PrepareQuery_def
      Paginator_getOrder_def)

end
